theory Spec2Isabelle
  imports Complex_Main
begin

section \<open>EV battery health report: the report pipeline of battery\_report.py\<close>

text \<open>
  The development embeds the four functions of \<^verbatim>\<open>battery_report.py\<close>:
  \<^verbatim>\<open>compute_soh\<close>, \<^verbatim>\<open>count_cycles_from_soc\<close>, \<^verbatim>\<open>detect_anomalies\<close> and
  \<^verbatim>\<open>generate_report\<close>.

  Numbers. The program computes on Python numbers read from JSON. They are modelled as
  exact numbers: \<open>real\<close> for capacities, voltages and temperatures, \<open>int\<close> for the
  state-of-charge percentages and the cell count. Binary floating point rounding is
  therefore idealised; every concrete value used below (65.0, 170.0, 2.1, 71.0) is also
  what IEEE double arithmetic gives on the same input.

  Input. The argument \<^verbatim>\<open>raw\<close> is a dictionary. Each top-level key the program tests for
  or reads is an optional field of the record \<open>battery_log\<close>. The entries of the three
  sequences are typed as the request schema of \<^verbatim>\<open>api.py\<close> declares them
  (\<^verbatim>\<open>Cell\<close>, \<^verbatim>\<open>SocReading\<close>, \<^verbatim>\<open>CycleHistory\<close>): the keys the program reads from an
  entry are always there and numeric.
\<close>

subsection \<open>Errors and arithmetic\<close>

datatype py_error = KeyError string | ZeroDivisionError

text \<open>Python's true division \<^verbatim>\<open>a / b\<close>: raises on a zero divisor.\<close>

definition py_div :: "real \<Rightarrow> real \<Rightarrow> py_error + real" where
  "py_div a b = (if b = 0 then Inl ZeroDivisionError else Inr (a / b))"

text \<open>Rounding to the nearest integer, a tie going to the even neighbour.\<close>

definition round_half_even :: "real \<Rightarrow> int" where
  "round_half_even y =
     (let f = \<lfloor>y\<rfloor>; d = y - of_int f
      in if d < 1 / 2 then f
         else if 1 / 2 < d then f + 1
         else if even f then f else f + 1)"

text \<open>Python's \<^verbatim>\<open>round(x, ndigits)\<close>.\<close>

definition py_round :: "real \<Rightarrow> nat \<Rightarrow> real" where
  "py_round x ndigits = of_int (round_half_even (x * 10 ^ ndigits)) / 10 ^ ndigits"

text \<open>Python's \<^verbatim>\<open>sum\<close>: starts at 0 and adds from left to right.\<close>

definition py_sum :: "'a::monoid_add list \<Rightarrow> 'a" where
  "py_sum xs = fold (\<lambda>x acc. acc + x) xs 0"

subsection \<open>The input record\<close>

record cell =
  voltage :: real
  temp_c :: real

record soc_reading =
  soc :: int

record cycle =
  energy_kwh :: real

record battery_log =
  vehicle_id :: "string option"
  nominal_capacity_kwh :: "real option"
  measured_capacity_kwh :: "real option"
  pack_voltage :: "real option"
  cell_count :: "int option"
  cells :: "cell list option"
  soc_timeseries :: "soc_reading list option"
  cycle_history :: "cycle list option"

subsection \<open>compute\_soh\<close>

text \<open>The result dictionary; its key \<^verbatim>\<open>"method"\<close> is the field \<open>soh_method\<close>.\<close>

record soh_result =
  soh_percent :: real
  soh_method :: string
  confidence :: string

text \<open>
  \<^verbatim>\<open>'k' in raw and raw['k']\<close> for a list-valued key: the list when the key is there and
  the list is not empty.
\<close>

definition present_nonempty :: "'a list option \<Rightarrow> 'a list option" where
  "present_nonempty v = (case v of None \<Rightarrow> None | Some [] \<Rightarrow> None | Some (x # xs) \<Rightarrow> Some (x # xs))"

text \<open>The second branch: the mean energy of the cycle history against the nominal capacity.\<close>

definition soh_from_cycle_history :: "battery_log \<Rightarrow> cycle list \<Rightarrow> py_error + soh_result" where
  "soh_from_cycle_history raw hist =
     (let total_energy = py_sum (map energy_kwh hist)
      in case py_div total_energy (real (length hist)) of
           Inl e \<Rightarrow> Inl e
         | Inr avg_energy \<Rightarrow>
             (case nominal_capacity_kwh raw of
                None \<Rightarrow> Inl (KeyError ''nominal_capacity_kwh'')
              | Some nominal \<Rightarrow>
                  (case py_div avg_energy nominal of
                     Inl e \<Rightarrow> Inl e
                   | Inr q \<Rightarrow>
                       Inr \<lparr>soh_percent = py_round (q * 100) 2,
                            soh_method = ''cycle_history_estimate'',
                            confidence = ''medium''\<rparr>)))"

text \<open>The third branch: the voltage heuristic.\<close>

definition soh_from_voltage :: "cell list \<Rightarrow> py_error + soh_result" where
  "soh_from_voltage cs =
     (case py_div (py_sum (map voltage cs)) (real (length cs)) of
        Inl e \<Rightarrow> Inl e
      | Inr avg_voltage \<Rightarrow>
          (case py_div (avg_voltage - 32 / 10) (42 / 10 - 32 / 10) of
             Inl e \<Rightarrow> Inl e
           | Inr q \<Rightarrow>
               Inr \<lparr>soh_percent = py_round (30 + q * 70) 2,
                    soh_method = ''voltage_heuristic'',
                    confidence = ''low''\<rparr>))"

definition compute_soh :: "battery_log \<Rightarrow> py_error + soh_result" where
  "compute_soh raw =
     (case (measured_capacity_kwh raw, nominal_capacity_kwh raw) of
        (Some measured, Some nominal) \<Rightarrow>
          (case py_div measured nominal of
             Inl e \<Rightarrow> Inl e
           | Inr q \<Rightarrow>
               Inr \<lparr>soh_percent = py_round (q * 100) 2,
                    soh_method = ''measured_capacity'',
                    confidence = ''high''\<rparr>)
      | _ \<Rightarrow>
          (case present_nonempty (cycle_history raw) of
             Some hist \<Rightarrow> soh_from_cycle_history raw hist
           | None \<Rightarrow>
               (case present_nonempty (cells raw) of
                  Some cs \<Rightarrow> soh_from_voltage cs
                | None \<Rightarrow>
                    Inr \<lparr>soh_percent = 0, soh_method = ''unknown'', confidence = ''none''\<rparr>)))"

subsection \<open>count\_cycles\_from\_soc\<close>

record cycles_result =
  equivalent_full_cycles :: real
  deep_cycles :: nat

text \<open>
  Both loops of the source run over \<^verbatim>\<open>range(1, len(soc_series))\<close> and read the samples
  at \<open>i - 1\<close> and \<open>i\<close>; the second one counts in the variable \<^verbatim>\<open>deep_cycles\<close>.
\<close>

definition count_cycles_from_soc :: "soc_reading list \<Rightarrow> cycles_result" where
  "count_cycles_from_soc soc_series =
     (if soc_series = [] \<or> length soc_series < 2
      then \<lparr>equivalent_full_cycles = 0, deep_cycles = 0\<rparr>
      else
        let total_delta_soc =
              py_sum (map (\<lambda>i. \<bar>soc (soc_series ! i) - soc (soc_series ! (i - 1))\<bar>)
                        [1..<length soc_series]);
            efc = real_of_int total_delta_soc / 100;
            deep =
              fold (\<lambda>i d. if 90 \<le> soc (soc_series ! (i - 1)) \<and> soc (soc_series ! i) \<le> 20
                            then d + 1 else d)
                   [1..<length soc_series] 0
        in \<lparr>equivalent_full_cycles = py_round efc 2, deep_cycles = deep\<rparr>)"

subsection \<open>detect\_anomalies\<close>










subsection \<open>generate\_report\<close>




subsection \<open>Notions of the specification\<close>


text \<open>The consecutive pairs of a series: each sample with the one after it.\<close>

definition consecutive_pairs :: "'a list \<Rightarrow> ('a \<times> 'a) list" where
  "consecutive_pairs xs = zip xs (tl xs)"




subsection \<open>Inputs of the test suite\<close>

definition empty_log :: battery_log where
  "empty_log =
     \<lparr>vehicle_id = None, nominal_capacity_kwh = None, measured_capacity_kwh = None,
      pack_voltage = None, cell_count = None, cells = None, soc_timeseries = None,
      cycle_history = None\<rparr>"




text \<open>The series of \<^verbatim>\<open>test_cycle_counting\<close> and the log of \<^verbatim>\<open>test_anomaly_detection\<close>.\<close>

definition test_soc_series :: "soc_reading list" where
  "test_soc_series = [\<lparr>soc = 95\<rparr>, \<lparr>soc = 18\<rparr>, \<lparr>soc = 88\<rparr>, \<lparr>soc = 25\<rparr>]"





section \<open>Properties\<close>

subsection \<open>Auxiliary facts\<close>

lemma py_sum_acc: "fold (\<lambda>x acc. acc + x) xs (a::'a::comm_monoid_add) = a + sum_list xs"
  by (induction xs arbitrary: a) (simp_all add: ac_simps)

lemma py_sum_sum_list: "py_sum (xs::'a::comm_monoid_add list) = sum_list xs"
  by (simp add: py_sum_def py_sum_acc)

lemma present_nonempty_None: "present_nonempty v = None \<longleftrightarrow> v = None \<or> v = Some []"
  by (simp add: present_nonempty_def split: option.splits list.splits)







subsection \<open>The state-of-health estimate\<close>











text \<open>
  Claim C10. For a record without \<^verbatim>\<open>measured_capacity_kwh\<close>, with an absent or empty
  \<^verbatim>\<open>cycle_history\<close> and with absent or empty \<^verbatim>\<open>cells\<close>, \<^verbatim>\<open>compute_soh\<close> returns
  \<open>soh_percent = 0\<close>, method "unknown", confidence "none", whatever the record holds
  for \<^verbatim>\<open>nominal_capacity_kwh\<close>, also nothing: the key is not read.
\<close>

theorem compute_soh_unknown:
  assumes "measured_capacity_kwh raw = None"
    and "cycle_history raw = None \<or> cycle_history raw = Some []"
    and "cells raw = None \<or> cells raw = Some []"
  shows "compute_soh (raw\<lparr>nominal_capacity_kwh := x\<rparr>) =
    Inr \<lparr>soh_percent = 0, soh_method = ''unknown'', confidence = ''none''\<rparr>"
proof -
  have "present_nonempty (cycle_history raw) = None"
    using assms(2) by (simp add: present_nonempty_None)
  moreover have "present_nonempty (cells raw) = None"
    using assms(3) by (simp add: present_nonempty_None)
  ultimately show ?thesis
    using assms(1) by (simp add: compute_soh_def)
qed

theorem compute_soh_unknown_witness:
  "measured_capacity_kwh empty_log = None \<and> cycle_history empty_log = None \<and>
   cells empty_log = None \<and> nominal_capacity_kwh empty_log = None \<and>
   compute_soh empty_log =
     Inr \<lparr>soh_percent = 0, soh_method = ''unknown'', confidence = ''none''\<rparr>"
  using compute_soh_unknown [of empty_log None]
  by (simp add: empty_log_def)

subsection \<open>The cycle count\<close>

lemma length_consecutive_pairs: "length (consecutive_pairs xs) = length xs - 1"
  by (simp add: consecutive_pairs_def)

text \<open>The index loop over \<open>1..<length xs\<close> visits the consecutive pairs in order.\<close>

lemma index_pairs:
  "map (\<lambda>i. f (xs ! (i - 1)) (xs ! i)) [1..<length xs] =
   map (\<lambda>(a, b). f a b) (consecutive_pairs xs)"
proof (rule nth_equalityI)
  show "length (map (\<lambda>i. f (xs ! (i - 1)) (xs ! i)) [1..<length xs]) =
        length (map (\<lambda>(a, b). f a b) (consecutive_pairs xs))"
    by (simp add: length_consecutive_pairs)
next
  fix i assume "i < length (map (\<lambda>i. f (xs ! (i - 1)) (xs ! i)) [1..<length xs])"
  then have i: "i < length xs - 1" by simp
  then have "consecutive_pairs xs ! i = (xs ! i, xs ! Suc i)"
    by (simp add: consecutive_pairs_def nth_tl)
  with i show "map (\<lambda>i. f (xs ! (i - 1)) (xs ! i)) [1..<length xs] ! i =
        map (\<lambda>(a, b). f a b) (consecutive_pairs xs) ! i"
    by (simp add: length_consecutive_pairs)
qed

lemma fold_count_acc:
  "fold (\<lambda>x d. if P x then d + 1 else d) xs (n::nat) = n + length (filter P xs)"
  by (induction xs arbitrary: n) simp_all

lemma fold_count_index:
  "fold (\<lambda>i d. if P (xs ! (i - 1)) (xs ! i) then d + 1 else d) [1..<length xs] (0::nat)
   = length (filter (\<lambda>(a, b). P a b) (consecutive_pairs xs))"
proof -
  have "fold (\<lambda>i d. if P (xs ! (i - 1)) (xs ! i) then d + 1 else d) [1..<length xs] (0::nat)
      = length (filter (\<lambda>i. P (xs ! (i - 1)) (xs ! i)) [1..<length xs])"
    by (simp add: fold_count_acc)
  also have "\<dots> = length (filter id (map (\<lambda>i. P (xs ! (i - 1)) (xs ! i)) [1..<length xs]))"
    by (simp add: filter_map comp_def)
  also have "\<dots> = length (filter id (map (\<lambda>(a, b). P a b) (consecutive_pairs xs)))"
    by (simp only: index_pairs)
  also have "\<dots> = length (filter (\<lambda>(a, b). P a b) (consecutive_pairs xs))"
    by (simp add: filter_map comp_def)
  finally show ?thesis .
qed

text \<open>
  Claim C2, on the code. For the series 95, 18, 88, 25 the function returns 2.1
  equivalent full cycles (the moves 77, 70 and 63 add up to 210 points) and one deep
  cycle; the 1.4 that \<^verbatim>\<open>test_cycle_counting\<close> asserts is not what it returns.
\<close>

theorem count_cycles_test_series:
  "count_cycles_from_soc test_soc_series =
     \<lparr>equivalent_full_cycles = 21 / 10, deep_cycles = 1\<rparr> \<and>
   equivalent_full_cycles (count_cycles_from_soc test_soc_series) \<noteq> 14 / 10"
  by (simp add: test_soc_series_def count_cycles_from_soc_def py_sum_def upt_rec
      py_round_def round_half_even_def)

text \<open>
  Claim C4. A series of fewer than two samples gives zero equivalent full cycles and
  zero deep cycles. Otherwise \<open>equivalent_full_cycles\<close> is the sum of
  \<open>|soc[i] - soc[i-1]|\<close> over the consecutive pairs, divided by 100 and rounded to two
  decimals, and \<open>deep_cycles\<close> is the number of consecutive pairs whose earlier sample is
  at 90 or more and whose later sample is at 20 or less.
\<close>

theorem count_cycles_from_soc_spec:
  "count_cycles_from_soc soc_series =
     (if length soc_series < 2
      then \<lparr>equivalent_full_cycles = 0, deep_cycles = 0\<rparr>
      else \<lparr>equivalent_full_cycles =
              py_round (real_of_int (\<Sum>(earlier, later)\<leftarrow>consecutive_pairs soc_series.
                                        \<bar>soc later - soc earlier\<bar>) / 100) 2,
            deep_cycles =
              length (filter (\<lambda>(earlier, later). 90 \<le> soc earlier \<and> soc later \<le> 20)
                        (consecutive_pairs soc_series))\<rparr>)"
proof (cases "length soc_series < 2")
  case True
  then show ?thesis by (simp add: count_cycles_from_soc_def)
next
  case False
  then have ne: "soc_series \<noteq> []" by auto
  have s: "py_sum (map (\<lambda>i. \<bar>soc (soc_series ! i) - soc (soc_series ! (i - 1))\<bar>)
                        [1..<length soc_series])
       = (\<Sum>(earlier, later)\<leftarrow>consecutive_pairs soc_series. \<bar>soc later - soc earlier\<bar>)"
    using index_pairs [of "\<lambda>a b. \<bar>soc b - soc a\<bar>" soc_series]
    by (simp add: py_sum_sum_list)
  have d: "fold (\<lambda>i d. if 90 \<le> soc (soc_series ! (i - 1)) \<and> soc (soc_series ! i) \<le> 20
                            then d + 1 else d)
                   [1..<length soc_series] (0::nat)
       = length (filter (\<lambda>(earlier, later). 90 \<le> soc earlier \<and> soc later \<le> 20)
                        (consecutive_pairs soc_series))"
    using fold_count_index [of "\<lambda>a b. 90 \<le> soc a \<and> soc b \<le> 20" soc_series] by simp
  from False ne s d show ?thesis
    by (simp add: count_cycles_from_soc_def Let_def)
qed

text \<open>The empty series, a single sample, and the pair 95, 18.\<close>

theorem count_cycles_from_soc_spec_witness:
  "count_cycles_from_soc [] = \<lparr>equivalent_full_cycles = 0, deep_cycles = 0\<rparr> \<and>
   count_cycles_from_soc [\<lparr>soc = 95\<rparr>] = \<lparr>equivalent_full_cycles = 0, deep_cycles = 0\<rparr> \<and>
   count_cycles_from_soc [\<lparr>soc = 95\<rparr>, \<lparr>soc = 18\<rparr>] =
     \<lparr>equivalent_full_cycles = 77 / 100, deep_cycles = 1\<rparr>"
  using count_cycles_from_soc_spec [of "[]"] count_cycles_from_soc_spec [of "[\<lparr>soc = 95\<rparr>]"]
    count_cycles_from_soc_spec [of "[\<lparr>soc = 95\<rparr>, \<lparr>soc = 18\<rparr>]"]
  by (simp add: consecutive_pairs_def py_round_def round_half_even_def)

subsection \<open>The anomaly checks\<close>











subsection \<open>The report\<close>



end
